theory Spec2Isabelle
  imports Complex_Main
begin

section \<open>Data model\<close>

text \<open>
  The product document of \<^verbatim>\<open>models/Product.js\<close>. Stock, version and the sales counter
  are JavaScript numbers that only ever hold integers here (the validators use
  \<^verbatim>\<open>isInt\<close>, the routes \<^verbatim>\<open>parseInt\<close>), so they are \<open>int\<close>. Prices and amounts are
  IEEE 754 doubles: such a number is modelled by the rational it denotes, and every
  arithmetic operation on amounts is followed by the rounding \<open>fl\<close> to the nearest
  double (section ``Double arithmetic''). Timestamps are milliseconds since the epoch. Object ids are natural numbers. The fields \<^verbatim>\<open>description\<close>, \<^verbatim>\<open>category\<close>,
  \<^verbatim>\<open>imageUrl\<close> and the automatic \<^verbatim>\<open>createdAt\<close>/\<^verbatim>\<open>updatedAt\<close> are carried along by the
  code unchanged and are left out.
\<close>

record product =
  name :: string
  price :: rat
  stock :: int
  version :: int
  isLocked :: bool
  lockedAt :: "int option"
  lockedBy :: "nat option"
  isActive :: bool
  totalSold :: int

type_synonym store = "nat \<rightharpoonup> product"

text \<open>
  Order lines and cart lines hold the same copied fields (\<^verbatim>\<open>productId\<close>,
  \<^verbatim>\<open>productName\<close>, \<^verbatim>\<open>quantity\<close>, \<^verbatim>\<open>price\<close>, \<^verbatim>\<open>total\<close>); one record serves both.
  The line's \<^verbatim>\<open>price\<close> field is \<open>itemPrice\<close> here, since \<open>price\<close> is the product's.
\<close>

record item =
  productId :: nat
  productName :: string
  quantity :: int
  itemPrice :: rat
  total :: rat

datatype order_status = Pending | Processing | Shipped | Delivered | Cancelled

datatype payment_status = PaymentPending | PaymentCompleted | PaymentFailed | PaymentRefunded

datatype payment_method = credit_card | debit_card | paypal | cash_on_delivery

record address =
  street :: string
  city :: string
  addrState :: string
  zipCode :: string

text \<open>
  The order document of \<^verbatim>\<open>models/Order.js\<close>. An order's \<^verbatim>\<open>_id\<close> is its position in the
  collection (orders are never deleted). \<^verbatim>\<open>orderNumber\<close> is
  \<^verbatim>\<open>ORD-<Date.now()>-<count + 1>\<close> and \<^verbatim>\<open>transactionId\<close> is
  \<^verbatim>\<open>TXN-<Date.now()>-<last six hex digits of the user id>\<close>; both are kept as the pair of
  numbers the string is built from.
\<close>

record order =
  userId :: nat
  orderNumber :: "int \<times> nat"
  items :: "item list"
  totalAmount :: rat
  status :: order_status
  shippingAddress :: address
  paymentMethod :: payment_method
  paymentStatus :: payment_status
  transactionId :: "int \<times> nat"

text \<open>
  The whole server state: the two collections and the in-memory \<^verbatim>\<open>userCarts\<close> map of
  \<^verbatim>\<open>routes/cart.js\<close> (a cart's \<^verbatim>\<open>updatedAt\<close> is left out).
\<close>

record db =
  products :: store
  orders :: "order list"
  userCarts :: "nat \<rightharpoonup> item list"

datatype error =
    ProductNotFound        \<comment> \<open>\<^verbatim>\<open>'Product not found'\<close>\<close>
  | InsufficientStock      \<comment> \<open>\<^verbatim>\<open>'Insufficient stock'\<close>\<close>
  | StockUpdateFailed      \<comment> \<open>\<^verbatim>\<open>'Product stock update failed due to concurrent modification or product is locked'\<close>\<close>
  | ProductLocked          \<comment> \<open>\<^verbatim>\<open>'Product is currently locked by another operation'\<close>\<close>
  | ValidationFailed       \<comment> \<open>400, an express-validator check or a route's own input check failed\<close>
  | NoItems                \<comment> \<open>400 \<^verbatim>\<open>'No items provided in the order'\<close>\<close>
  | ProductUnavailable nat \<comment> \<open>\<^verbatim>\<open>'Product ${id} is no longer available'\<close>\<close>
  | InsufficientStockFor nat int int
                           \<comment> \<open>\<^verbatim>\<open>'Insufficient stock for ${name}. Available: ${stock}, Requested: ${quantity}'\<close>\<close>
  | SaveFailed             \<comment> \<open>a schema validator rejected the document on \<^verbatim>\<open>save\<close>\<close>
  | DuplicateKey           \<comment> \<open>a unique index rejected the document\<close>
  | OrderNotFound          \<comment> \<open>404 \<^verbatim>\<open>'Order not found'\<close>\<close>
  | CannotCancel order_status
                           \<comment> \<open>400 \<^verbatim>\<open>'Cannot cancel order. Current status: ${status}'\<close>\<close>
  | CartProductNotFound    \<comment> \<open>404 \<^verbatim>\<open>'Product not found or unavailable'\<close>\<close>
  | CartInsufficientStock int
                           \<comment> \<open>400 \<^verbatim>\<open>'Insufficient stock. Available: ${stock}'\<close>\<close>

section \<open>Concurrency control on one product (\<^verbatim>\<open>models/Product.js\<close>)\<close>

text \<open>
  \<^verbatim>\<open>updateStockSafe\<close> talks to the store twice: \<^verbatim>\<open>findById\<close>, then one
  \<^verbatim>\<open>findOneAndUpdate\<close> whose filter is \<^verbatim>\<open>{_id, version: currentVersion, isLocked: false}\<close>
  and whose update is \<^verbatim>\<open>$inc: {stock: quantityChange, version: 1}\<close>. Other requests may
  run between the two, so each store operation is a function of its own and the store
  seen by the second one is a parameter.
\<close>

definition updateStockSafe_read :: "store \<Rightarrow> nat \<Rightarrow> int \<Rightarrow> error + int" where
  "updateStockSafe_read s pid quantityChange =
     (case s pid of
        None \<Rightarrow> Inl ProductNotFound
      | Some p \<Rightarrow>
          let currentVersion = version p;
              newStock = stock p + quantityChange
          in if newStock < 0 then Inl InsufficientStock else Inr currentVersion)"

definition updateStockSafe_write :: "store \<Rightarrow> nat \<Rightarrow> int \<Rightarrow> int \<Rightarrow> error + (product \<times> store)" where
  "updateStockSafe_write s pid currentVersion quantityChange =
     (case s pid of
        None \<Rightarrow> Inl StockUpdateFailed
      | Some p \<Rightarrow>
          if version p = currentVersion \<and> \<not> isLocked p
          then let result = p\<lparr>stock := stock p + quantityChange, version := version p + 1\<rparr>
               in Inr (result, s(pid \<mapsto> result))
          else Inl StockUpdateFailed)"

text \<open>The whole method when nothing else runs between its two store operations.\<close>

definition updateStockSafe :: "store \<Rightarrow> nat \<Rightarrow> int \<Rightarrow> error + (product \<times> store)" where
  "updateStockSafe s pid quantityChange =
     (case updateStockSafe_read s pid quantityChange of
        Inl e \<Rightarrow> Inl e
      | Inr currentVersion \<Rightarrow> updateStockSafe_write s pid currentVersion quantityChange)"

text \<open>
  Other writers between a read and its write: a sequence of conditional writes
  (read version, delta) on the same product, each of which may succeed or fail.
\<close>

fun other_writes :: "store \<Rightarrow> nat \<Rightarrow> (int \<times> int) list \<Rightarrow> store" where
  "other_writes s pid [] = s"
| "other_writes s pid ((v, d) # ws) =
     (case updateStockSafe_write s pid v d of
        Inl e \<Rightarrow> other_writes s pid ws
      | Inr (r, s') \<Rightarrow> other_writes s' pid ws)"

text \<open>
  \<^verbatim>\<open>lockProduct\<close>: one \<^verbatim>\<open>findOneAndUpdate\<close> with the filter
  \<^verbatim>\<open>{_id, $or: [{isLocked: false}, {lockedAt: {$lt: lockTimeout}}]}\<close>. A \<^verbatim>\<open>$lt\<close> against
  a date does not match a \<^verbatim>\<open>null\<close> field. \<open>now\<close> is the clock: the method reads it for
  \<^verbatim>\<open>lockTimeout\<close> and again for the new \<^verbatim>\<open>lockedAt\<close>, and both reads are taken to be the
  same millisecond.
\<close>

definition lockProduct :: "int \<Rightarrow> store \<Rightarrow> nat \<Rightarrow> nat \<Rightarrow> error + (product \<times> store)" where
  "lockProduct now s pid uid =
     (let lockTimeout = now - 5 * 60 * 1000
      in case s pid of
           None \<Rightarrow> Inl ProductLocked
         | Some p \<Rightarrow>
             if \<not> isLocked p \<or> (case lockedAt p of None \<Rightarrow> False | Some t \<Rightarrow> t < lockTimeout)
             then let result = p\<lparr>isLocked := True, lockedAt := Some now, lockedBy := Some uid\<rparr>
                  in Inr (result, s(pid \<mapsto> result))
             else Inl ProductLocked)"

definition unlockProduct :: "store \<Rightarrow> nat \<Rightarrow> nat \<Rightarrow> product option \<times> store" where
  "unlockProduct s pid uid =
     (case s pid of
        None \<Rightarrow> (None, s)
      | Some p \<Rightarrow>
          if lockedBy p = Some uid
          then let result = p\<lparr>isLocked := False, lockedAt := None, lockedBy := None\<rparr>
               in (Some result, s(pid \<mapsto> result))
          else (None, s))"

section \<open>Order placement (\<^verbatim>\<open>routes/orders.js\<close>, \<^verbatim>\<open>models/Order.js\<close>)\<close>

text \<open>
  The request body after the \<^verbatim>\<open>orderValidation.create\<close> chain. \<^verbatim>\<open>isMongoId\<close> and the
  \<^verbatim>\<open>isIn\<close> check of the payment method hold by typing. \<^verbatim>\<open>trim()\<close> is a sanitizer: the
  handler sees the trimmed street and city. Address strings are ASCII text here; on such
  strings \<^verbatim>\<open>trim()\<close> strips exactly the six characters of \<open>is_space\<close> and \<^verbatim>\<open>isLength\<close>
  counts characters.
\<close>

record order_request =
  req_items :: "(nat \<times> int) list"
  req_shippingAddress :: address
  req_paymentMethod :: payment_method

definition is_space :: "char \<Rightarrow> bool" where
  "is_space c = ((of_char c :: nat) \<in> {9, 10, 11, 12, 13, 32})"

definition is_digit :: "char \<Rightarrow> bool" where
  "is_digit c = (48 \<le> (of_char c :: nat) \<and> (of_char c :: nat) \<le> 57)"

definition trim :: "string \<Rightarrow> string" where
  "trim str = rev (dropWhile is_space (rev (dropWhile is_space str)))"

text \<open>\<^verbatim>\<open>/^\d{5}(-\d{4})?$/\<close>\<close>

definition zip_matches :: "string \<Rightarrow> bool" where
  "zip_matches z =
     ((length z = 5 \<and> list_all is_digit z) \<or>
      (length z = 10 \<and> list_all is_digit (take 5 z) \<and> z ! 5 = CHR ''-'' \<and>
       list_all is_digit (drop 6 z)))"

definition orderValidation_create :: "order_request \<Rightarrow> bool" where
  "orderValidation_create req =
     (1 \<le> length (req_items req) \<and>
      list_all (\<lambda>(pid, q). 1 \<le> q \<and> q \<le> 100) (req_items req) \<and>
      (let n = length (trim (street (req_shippingAddress req))) in 5 \<le> n \<and> n \<le> 100) \<and>
      (let n = length (trim (city (req_shippingAddress req))) in 2 \<le> n \<and> n \<le> 50) \<and>
      zip_matches (zipCode (req_shippingAddress req)))"

definition sanitized_address :: "address \<Rightarrow> address" where
  "sanitized_address a = a\<lparr>street := trim (street a), city := trim (city a)\<rparr>"

subsection \<open>Double arithmetic\<close>

text \<open>
  JavaScript's \<^verbatim>\<open>*\<close>, \<^verbatim>\<open>+\<close> and \<^verbatim>\<open>/\<close> on numbers return the exact result rounded to
  the nearest double, ties to the even significand. \<open>nbits n\<close> is the length of \<open>n\<close> in
  binary, \<open>ilog2 a\<close> is the integer part of the binary logarithm of a positive rational,
  and \<open>fl x\<close> rounds \<open>x\<close> to an integer multiple of \<open>2 ^ e\<close>, where \<open>e\<close> leaves 53 bits of
  significand and is at least -1074 (the subnormal range). Results of magnitude
  \<open>2 ^ 1024\<close> and more, which are \<^verbatim>\<open>Infinity\<close> in JavaScript, are outside the model; the
  schema bounds a price by 999999 and the validators a quantity by 100.
\<close>

function nbits :: "int \<Rightarrow> int" where
  "nbits n = (if n \<le> 0 then 0 else 1 + nbits (n div 2))"
  by pat_completeness auto
termination
  by (relation "measure nat") auto

declare nbits.simps [simp del]

definition ilog2 :: "rat \<Rightarrow> int" where
  "ilog2 a = (if 1 \<le> a then nbits \<lfloor>a\<rfloor> - 1 else - nbits (\<lceil>1 / a\<rceil> - 1))"

definition pow2 :: "int \<Rightarrow> rat" where
  "pow2 e = (if 0 \<le> e then of_int (2 ^ nat e) else 1 / of_int (2 ^ nat (- e)))"

definition round_half_even :: "rat \<Rightarrow> int" where
  "round_half_even y =
     (let m = \<lfloor>y\<rfloor>; r = y - of_int m
      in if r < 1 / 2 then m else if 1 / 2 < r then m + 1 else if even m then m else m + 1)"

definition fl :: "rat \<Rightarrow> rat" where
  "fl x = (if x = 0 then 0
           else let a = \<bar>x\<bar>;
                    e = max (ilog2 a - 52) (- 1074);
                    m = round_half_even (a / pow2 e)
                in sgn x * of_int m * pow2 e)"

text \<open>
  \<^verbatim>\<open>Math.round(x * 100) / 100\<close>. \<^verbatim>\<open>Math.round\<close> returns the integer nearest to the
  double it is given, the upper one of two equally near; the product before it and the
  quotient after it are double operations.
\<close>

definition math_round :: "rat \<Rightarrow> int" where
  "math_round x = \<lfloor>x + 1 / 2\<rfloor>"

definition round2 :: "rat \<Rightarrow> rat" where
  "round2 x = fl (of_int (math_round (fl (x * 100))) / 100)"

text \<open>
  Step 1 of the transaction: the loop over the requested items, with its two
  accumulators \<^verbatim>\<open>orderItems\<close> and \<^verbatim>\<open>totalAmount\<close> (\<open>acc\<close> below).
\<close>

fun validate_items :: "store \<Rightarrow> (nat \<times> int) list \<Rightarrow> item list \<Rightarrow> rat \<Rightarrow> error + (item list \<times> rat)" where
  "validate_items s [] orderItems acc = Inr (orderItems, acc)"
| "validate_items s ((pid, q) # rest) orderItems acc =
     (case s pid of
        None \<Rightarrow> Inl (ProductUnavailable pid)
      | Some p \<Rightarrow>
          if \<not> isActive p then Inl (ProductUnavailable pid)
          else if stock p < q then Inl (InsufficientStockFor pid (stock p) q)
          else let orderItem = \<lparr>productId = pid, productName = name p, quantity = q,
                                 itemPrice = price p, total = fl (of_int q * price p)\<rparr>
               in validate_items s rest (orderItems @ [orderItem]) (fl (acc + total orderItem)))"

text \<open>
  The order schema's validators, run by \<^verbatim>\<open>save\<close>: required strings are non-empty,
  \<^verbatim>\<open>quantity\<close> has \<^verbatim>\<open>min: 1\<close>, \<^verbatim>\<open>price\<close> and \<^verbatim>\<open>totalAmount\<close> have \<^verbatim>\<open>min: 0\<close>.
\<close>

definition item_valid :: "item \<Rightarrow> bool" where
  "item_valid it = (productName it \<noteq> [] \<and> 1 \<le> quantity it \<and> 0 \<le> itemPrice it)"

definition order_valid :: "order \<Rightarrow> bool" where
  "order_valid od =
     (list_all item_valid (items od) \<and> 0 \<le> totalAmount od \<and>
      street (shippingAddress od) \<noteq> [] \<and> city (shippingAddress od) \<noteq> [] \<and>
      addrState (shippingAddress od) \<noteq> [] \<and> zipCode (shippingAddress od) \<noteq> [])"

text \<open>
  \<^verbatim>\<open>Order.createOrderWithTransaction\<close>: validation, then the \<^verbatim>\<open>pre('save')\<close> hook that
  numbers a new order from \<^verbatim>\<open>countDocuments()\<close>, then the insert under the two unique
  indexes. The clock read by the hook is taken to be the one read for the transaction id.
\<close>

definition createOrderWithTransaction :: "int \<Rightarrow> order list \<Rightarrow> order \<Rightarrow> error + (order \<times> order list)" where
  "createOrderWithTransaction now os orderData =
     (if \<not> order_valid orderData then Inl SaveFailed
      else let count = length os;
               order = orderData\<lparr>orderNumber := (now, count + 1)\<rparr>
           in if orderNumber order \<in> set (map orderNumber os) \<or>
                 transactionId order \<in> set (map transactionId os)
              then Inl DuplicateKey
              else Inr (order, os @ [order]))"

definition incTotalSold :: "store \<Rightarrow> nat \<Rightarrow> int \<Rightarrow> store" where
  "incTotalSold s pid q =
     (case s pid of None \<Rightarrow> s | Some p \<Rightarrow> s(pid \<mapsto> p\<lparr>totalSold := totalSold p + q\<rparr>))"

text \<open>Step 3: the loop over \<^verbatim>\<open>orderItems\<close>; a throw of \<^verbatim>\<open>updateStockSafe\<close> leaves it.\<close>

fun update_stock_and_sales :: "store \<Rightarrow> item list \<Rightarrow> error + store" where
  "update_stock_and_sales s [] = Inr s"
| "update_stock_and_sales s (it # rest) =
     (case updateStockSafe s (productId it) (- quantity it) of
        Inl e \<Rightarrow> Inl e
      | Inr (r, s') \<Rightarrow> update_stock_and_sales (incTotalSold s' (productId it) (quantity it)) rest)"

definition order_transaction :: "int \<Rightarrow> nat \<Rightarrow> order_request \<Rightarrow> db \<Rightarrow> error + (order \<times> db)" where
  "order_transaction now uid req s =
     (case validate_items (products s) (req_items req) [] 0 of
        Inl e \<Rightarrow> Inl e
      | Inr (orderItems, acc) \<Rightarrow>
          let orderData =
                \<lparr>userId = uid, orderNumber = (0, 0), items = orderItems,
                 totalAmount = round2 acc, status = Pending,
                 shippingAddress = sanitized_address (req_shippingAddress req),
                 paymentMethod = req_paymentMethod req,
                 paymentStatus = (if req_paymentMethod req = cash_on_delivery
                                  then PaymentPending else PaymentCompleted),
                 transactionId = (now, uid mod 16 ^ 6)\<rparr>
          in case createOrderWithTransaction now (orders s) orderData of
               Inl e \<Rightarrow> Inl e
             | Inr (order, os) \<Rightarrow>
                 (case update_stock_and_sales (products s) orderItems of
                    Inl e \<Rightarrow> Inl e
                  | Inr ps \<Rightarrow> Inr (order, s\<lparr>products := ps, orders := os\<rparr>)))"

text \<open>
  \<^verbatim>\<open>session.withTransaction\<close>: every store operation of the callback carries the
  session, so its writes become visible at commit only; a callback that throws aborts
  the transaction and the error is rethrown.
\<close>

definition withTransaction :: "(db \<Rightarrow> error + ('a \<times> db)) \<Rightarrow> db \<Rightarrow> (error + 'a) \<times> db" where
  "withTransaction callback s =
     (case callback s of Inl e \<Rightarrow> (Inl e, s) | Inr (r, s') \<Rightarrow> (Inr r, s'))"

definition clearCartForUser :: "nat \<Rightarrow> db \<Rightarrow> db" where
  "clearCartForUser uid s = s\<lparr>userCarts := (userCarts s)(uid \<mapsto> [])\<rparr>"

text \<open>\<^verbatim>\<open>POST /api/orders\<close>\<close>

definition createOrder :: "int \<Rightarrow> nat \<Rightarrow> order_request \<Rightarrow> db \<Rightarrow> (error + order) \<times> db" where
  "createOrder now uid req s =
     (if \<not> orderValidation_create req then (Inl ValidationFailed, s)
      else if req_items req = [] then (Inl NoItems, s)
      else case withTransaction (order_transaction now uid req) s of
             (Inl e, s') \<Rightarrow> (Inl e, s')
           | (Inr order, s') \<Rightarrow> (Inr order, clearCartForUser uid s'))"

section \<open>Cancellation and status changes (\<^verbatim>\<open>routes/orders.js\<close>)\<close>

text \<open>
  The restore loop sits in one \<^verbatim>\<open>try\<close>: the first \<^verbatim>\<open>updateStockSafe\<close> that throws ends
  it, the error is logged (the second component) and the lines after it are not restored.
\<close>

fun restore_stock :: "store \<Rightarrow> item list \<Rightarrow> store \<times> error option" where
  "restore_stock s [] = (s, None)"
| "restore_stock s (it # rest) =
     (case updateStockSafe s (productId it) (quantity it) of
        Inl stockError \<Rightarrow> (s, Some stockError)
      | Inr (r, s') \<Rightarrow> restore_stock s' rest)"

text \<open>\<^verbatim>\<open>PATCH /api/orders/:id/cancel\<close>, for the authenticated customer \<open>uid\<close>.\<close>

definition cancelOrder :: "nat \<Rightarrow> nat \<Rightarrow> db \<Rightarrow> (error + (order \<times> error option)) \<times> db" where
  "cancelOrder oid uid s =
     (if oid < length (orders s) \<and> userId (orders s ! oid) = uid
      then let order = orders s ! oid
           in if status order \<noteq> Pending then (Inl (CannotCancel (status order)), s)
              else let order' = order\<lparr>status := Cancelled\<rparr>
                   in if \<not> order_valid order' then (Inl SaveFailed, s)
                      else let (ps, logged) = restore_stock (products s) (items order')
                           in (Inr (order', logged),
                               s\<lparr>products := ps, orders := (orders s)[oid := order']\<rparr>)
      else (Inl OrderNotFound, s))"

text \<open>
  \<^verbatim>\<open>PATCH /api/orders/:id/status\<close> (admin). \<^verbatim>\<open>findByIdAndUpdate\<close> runs with
  \<^verbatim>\<open>new: true\<close>, so \<^verbatim>\<open>order\<close> is the document after the update, and the test before the
  restore loop reads the new status.
\<close>

definition updateOrderStatus :: "nat \<Rightarrow> order_status \<Rightarrow> db \<Rightarrow> (error + (order \<times> error option)) \<times> db" where
  "updateOrderStatus oid st s =
     (if oid < length (orders s)
      then let order = (orders s ! oid)\<lparr>status := st\<rparr>;
               s1 = s\<lparr>orders := (orders s)[oid := order]\<rparr>
           in if st = Cancelled \<and> status order \<noteq> Cancelled
              then let (ps, logged) = restore_stock (products s1) (items order)
                   in (Inr (order, logged), s1\<lparr>products := ps\<rparr>)
              else (Inr (order, None), s1)
      else (Inl OrderNotFound, s))"

section \<open>Product administration (\<^verbatim>\<open>routes/products.js\<close>)\<close>

text \<open>
  \<^verbatim>\<open>PUT /api/products/:id\<close>: the fields of the body that are present are written with
  \<^verbatim>\<open>findByIdAndUpdate\<close>, which runs no \<^verbatim>\<open>save\<close> middleware. Only the fields of the
  product record above are modelled.
\<close>

record product_update =
  upd_price :: "rat option"
  upd_stock :: "int option"
  upd_isActive :: "bool option"

definition productValidation_update :: "product_update \<Rightarrow> bool" where
  "productValidation_update u =
     ((case upd_price u of None \<Rightarrow> True | Some x \<Rightarrow> 0 \<le> x \<and> x \<le> 999999) \<and>
      (case upd_stock u of None \<Rightarrow> True | Some n \<Rightarrow> 0 \<le> n))"

definition apply_updates :: "product_update \<Rightarrow> product \<Rightarrow> product" where
  "apply_updates u p =
     (let p1 = (case upd_price u of None \<Rightarrow> p | Some x \<Rightarrow> p\<lparr>price := x\<rparr>);
          p2 = (case upd_stock u of None \<Rightarrow> p1 | Some n \<Rightarrow> p1\<lparr>stock := n\<rparr>)
      in case upd_isActive u of None \<Rightarrow> p2 | Some b \<Rightarrow> p2\<lparr>isActive := b\<rparr>)"

definition updateProduct :: "nat \<Rightarrow> product_update \<Rightarrow> store \<Rightarrow> (error + product) \<times> store" where
  "updateProduct pid u s =
     (if \<not> productValidation_update u then (Inl ValidationFailed, s)
      else case s pid of
             None \<Rightarrow> (Inl ProductNotFound, s)
           | Some p \<Rightarrow> let product = apply_updates u p in (Inr product, s(pid \<mapsto> product)))"

section \<open>The cart (\<^verbatim>\<open>routes/cart.js\<close>)\<close>

fun findIndex :: "('a \<Rightarrow> bool) \<Rightarrow> 'a list \<Rightarrow> nat option" where
  "findIndex P [] = None"
| "findIndex P (x # xs) =
     (if P x then Some 0 else map_option Suc (findIndex P xs))"

text \<open>
  \<^verbatim>\<open>POST /api/cart/add\<close>. The product is fetched with \<^verbatim>\<open>{_id, isActive: true}\<close>. On an
  existing line the handler assigns \<^verbatim>\<open>quantity\<close> and \<^verbatim>\<open>total\<close>; a new line is pushed.
  The response's \<^verbatim>\<open>cartItem\<close> is the first line of that product.
\<close>

definition addToCart :: "nat \<Rightarrow> nat \<Rightarrow> int \<Rightarrow> db \<Rightarrow> (error + item option) \<times> db" where
  "addToCart uid pid qty s =
     (if \<not> (1 \<le> qty \<and> qty \<le> 50) then (Inl ValidationFailed, s)
      else case products s pid of
             None \<Rightarrow> (Inl CartProductNotFound, s)
           | Some product \<Rightarrow>
               if \<not> isActive product then (Inl CartProductNotFound, s)
               else if stock product < qty then (Inl (CartInsufficientStock (stock product)), s)
               else let cart = (case userCarts s uid of None \<Rightarrow> [] | Some c \<Rightarrow> c)
                    in case findIndex (\<lambda>it. productId it = pid) cart of
                         Some existingItemIndex \<Rightarrow>
                           let newQuantity = quantity (cart ! existingItemIndex) + qty
                           in if stock product < newQuantity
                              then (Inl (CartInsufficientStock (stock product)), s)
                              else let cart' = cart[existingItemIndex :=
                                           (cart ! existingItemIndex)
                                             \<lparr>quantity := newQuantity,
                                              total := fl (of_int newQuantity * price product)\<rparr>]
                                   in (Inr (List.find (\<lambda>it. productId it = pid) cart'),
                                       s\<lparr>userCarts := (userCarts s)(uid \<mapsto> cart')\<rparr>)
                       | None \<Rightarrow>
                           let cart' = cart @ [\<lparr>productId = pid, productName = name product,
                                                quantity = qty, itemPrice = price product,
                                                total = fl (of_int qty * price product)\<rparr>]
                           in (Inr (List.find (\<lambda>it. productId it = pid) cart'),
                               s\<lparr>userCarts := (userCarts s)(uid \<mapsto> cart')\<rparr>))"

section \<open>Auxiliary predicates\<close>

text \<open>
  \<open>line_of s x it\<close>: the order line \<open>it\<close> is the point-in-time copy that step 1 makes of
  the requested pair \<open>x\<close> from the product found in \<open>s\<close>.
\<close>

definition line_of :: "store \<Rightarrow> nat \<times> int \<Rightarrow> item \<Rightarrow> bool" where
  "line_of s x it =
     (productId it = fst x \<and> quantity it = snd x \<and>
      (\<exists>p. s (fst x) = Some p \<and> isActive p \<and> snd x \<le> stock p \<and> productName it = name p \<and>
           itemPrice it = price p \<and> total it = fl (of_int (snd x) * price p)))"

text \<open>
  The sum of a list of amounts as the loop of step 1 computes it: from 0, one double
  addition per line, in line order.
\<close>

definition js_sum :: "rat list \<Rightarrow> rat" where
  "js_sum ts = foldl (\<lambda>a t. fl (a + t)) 0 ts"

text \<open>Two stores hold the same products with the same lock flags.\<close>

definition same_locks :: "store \<Rightarrow> store \<Rightarrow> bool" where
  "same_locks s s' = (\<forall>k. (case s k of None \<Rightarrow> s' k = None
                            | Some p \<Rightarrow> (\<exists>p'. s' k = Some p' \<and> isLocked p' = isLocked p)))"

text \<open>The total quantity that the lines \<open>its\<close> hold of product \<open>pid\<close>.\<close>

definition line_quantity :: "nat \<Rightarrow> item list \<Rightarrow> int" where
  "line_quantity pid its = (\<Sum>it\<leftarrow>its. if productId it = pid then quantity it else 0)"

section \<open>Example data\<close>

definition P0 :: product where
  "P0 = \<lparr>name = ''Lamp'', price = 25 / 2, stock = 10, version = 3, isLocked = False,
          lockedAt = None, lockedBy = None, isActive = True, totalSold = 0\<rparr>"

definition P_conflict :: product where
  "P_conflict = P0\<lparr>version := 4\<rparr>"

definition P_locked :: product where
  "P_locked = P0\<lparr>isLocked := True, lockedAt := Some 1000, lockedBy := Some 7\<rparr>"

definition P_eighth :: product where
  "P_eighth = \<lparr>name = ''Pin'', price = 1 / 8, stock = 5, version = 0, isLocked = False,
          lockedAt = None, lockedBy = None, isActive = True, totalSold = 0\<rparr>"

definition P_inactive :: product where
  "P_inactive = P0\<lparr>name := ''Vase'', isActive := False\<rparr>"

definition addr0 :: address where
  "addr0 = \<lparr>street = ''12 Mall Road'', city = ''Lahore'', addrState = ''Punjab'', zipCode = ''54000''\<rparr>"

definition line_lamp :: item where
  "line_lamp = \<lparr>productId = 1, productName = ''Lamp'', quantity = 1, itemPrice = 25 / 2, total = 25 / 2\<rparr>"

definition line_pin :: item where
  "line_pin = \<lparr>productId = 2, productName = ''Pin'', quantity = 1, itemPrice = 1 / 8, total = 1 / 8\<rparr>"

definition S0 :: db where
  "S0 = \<lparr>products = [1 \<mapsto> P0, 2 \<mapsto> P_eighth, 3 \<mapsto> P_inactive], orders = [],
          userCarts = [42 \<mapsto> [line_lamp], 43 \<mapsto> [line_pin]]\<rparr>"

definition req_unavailable :: order_request where
  "req_unavailable = \<lparr>req_items = [(1, 2), (3, 1)], req_shippingAddress = addr0,
                       req_paymentMethod = cash_on_delivery\<rparr>"

definition req_twice :: order_request where
  "req_twice = \<lparr>req_items = [(2, 3), (2, 3)], req_shippingAddress = addr0,
                 req_paymentMethod = cash_on_delivery\<rparr>"

definition req_pin :: order_request where
  "req_pin = \<lparr>req_items = [(2, 1)], req_shippingAddress = addr0,
               req_paymentMethod = cash_on_delivery\<rparr>"

definition order_pin :: order where
  "order_pin = \<lparr>userId = 42, orderNumber = (5000, 1), items = [line_pin],
                 totalAmount = 1170935903116329 / 9007199254740992,
                 status = Pending, shippingAddress = addr0, paymentMethod = cash_on_delivery,
                 paymentStatus = PaymentPending, transactionId = (5000, 42)\<rparr>"

definition S0_after_pin :: db where
  "S0_after_pin = \<lparr>products = [1 \<mapsto> P0, 2 \<mapsto> P_eighth\<lparr>stock := 4, version := 1, totalSold := 1\<rparr>,
                                3 \<mapsto> P_inactive],
                    orders = [order_pin], userCarts = [42 \<mapsto> [], 43 \<mapsto> [line_pin]]\<rparr>"

definition S_cancelled :: db where
  "S_cancelled = \<lparr>products = [1 \<mapsto> P0, 2 \<mapsto> P_eighth\<lparr>stock := 5, version := 2, totalSold := 1\<rparr>,
                               3 \<mapsto> P_inactive],
                   orders = [order_pin\<lparr>status := Cancelled\<rparr>],
                   userCarts = [42 \<mapsto> [], 43 \<mapsto> [line_pin]]\<rparr>"

definition S_shipped :: db where
  "S_shipped = S0_after_pin\<lparr>orders := [order_pin\<lparr>status := Shipped\<rparr>]\<rparr>"

definition S_delivered :: db where
  "S_delivered = S0_after_pin\<lparr>orders := [order_pin\<lparr>status := Delivered\<rparr>]\<rparr>"

definition stock_to_3 :: product_update where
  "stock_to_3 = \<lparr>upd_price = None, upd_stock = Some 3, upd_isActive = None\<rparr>"

definition price_to_20 :: product_update where
  "price_to_20 = \<lparr>upd_price = Some 20, upd_stock = None, upd_isActive = None\<rparr>"

definition S_repriced :: db where
  "S_repriced = S0\<lparr>products := [1 \<mapsto> P0\<lparr>price := 20\<rparr>, 2 \<mapsto> P_eighth, 3 \<mapsto> P_inactive]\<rparr>"

definition line_lamp_merged :: item where
  "line_lamp_merged = \<lparr>productId = 1, productName = ''Lamp'', quantity = 2, itemPrice = 25 / 2, total = 40\<rparr>"

section \<open>Properties of the concurrency controller\<close>

lemma write_success:
  "updateStockSafe_write s pid v d = Inr (r, s') \<Longrightarrow>
     \<exists>p. s pid = Some p \<and> version p = v \<and> \<not> isLocked p \<and>
         r = p\<lparr>stock := stock p + d, version := version p + 1\<rparr> \<and> s' = s(pid \<mapsto> r)"
  by (auto simp: updateStockSafe_write_def Let_def split: option.splits if_splits)

lemma write_version_mono:
  "s pid = Some p \<Longrightarrow> \<exists>q. (case updateStockSafe_write s pid v d of Inl e \<Rightarrow> s | Inr (r, s') \<Rightarrow> s') pid = Some q \<and> version p \<le> version q"
  by (auto simp: updateStockSafe_write_def Let_def split: option.splits if_splits)

lemma other_writes_version_mono:
  "s pid = Some p \<Longrightarrow> \<exists>q. other_writes s pid ws pid = Some q \<and> version p \<le> version q"
proof (induction ws arbitrary: s p)
  case Nil
  then show ?case by simp
next
  case (Cons w ws)
  obtain v d where w: "w = (v, d)" by (cases w)
  let ?s1 = "case updateStockSafe_write s pid v d of Inl e \<Rightarrow> s | Inr (r, s') \<Rightarrow> s'"
  from write_version_mono[of s pid p v d] Cons.prems
  obtain q where q: "?s1 pid = Some q" "version p \<le> version q" by blast
  from Cons.IH[of ?s1 q] q(1) obtain q' where q': "other_writes ?s1 pid ws pid = Some q'" "version q \<le> version q'"
    by blast
  have "other_writes s pid (w # ws) = other_writes ?s1 pid ws"
    by (simp add: w split: sum.splits prod.splits)
  with q q' show ?case by auto
qed

lemma write_fails_on_newer:
  "s pid = Some q \<Longrightarrow> v < version q \<Longrightarrow> updateStockSafe_write s pid v d = Inl StockUpdateFailed"
  by (simp add: updateStockSafe_write_def)

text \<open>
  C1. A conditional stock adjustment that read version \<open>v\<close> commits only on a store in
  which the product still has version \<open>v\<close> and is not locked; the one store operation
  adds exactly \<open>d\<close> to the stock and exactly one to the version and returns the updated
  document. After the commit no write computed against the same read version succeeds,
  whatever other conditional writes run in between.
\<close>

theorem updateStockSafe_commit:
  assumes rd: "updateStockSafe_read s0 pid d = Inr v"
      and wr: "updateStockSafe_write s pid v d = Inr (r, s')"
  shows "\<exists>p0 p. s0 pid = Some p0 \<and> version p0 = v \<and> 0 \<le> stock p0 + d \<and>
           s pid = Some p \<and> version p = version p0 \<and> \<not> isLocked p \<and>
           r = p\<lparr>stock := stock p + d, version := version p + 1\<rparr> \<and>
           stock r = stock p + d \<and> version r = version p + 1 \<and>
           s' = s(pid \<mapsto> r) \<and>
           (\<forall>ws d'. updateStockSafe_write (other_writes s' pid ws) pid v d' = Inl StockUpdateFailed)"
proof -
  from rd obtain p0 where p0: "s0 pid = Some p0" "version p0 = v" "0 \<le> stock p0 + d"
    by (auto simp: updateStockSafe_read_def Let_def split: option.splits if_splits)
  from write_success[OF wr] obtain p where p: "s pid = Some p" "version p = v" "\<not> isLocked p"
    "r = p\<lparr>stock := stock p + d, version := version p + 1\<rparr>" "s' = s(pid \<mapsto> r)" by blast
  have later: "updateStockSafe_write (other_writes s' pid ws) pid v d' = Inl StockUpdateFailed" for ws d'
  proof -
    have "s' pid = Some r" using p by simp
    from other_writes_version_mono[of s' pid r ws] this
    obtain q where q: "other_writes s' pid ws pid = Some q" "version r \<le> version q" by blast
    have "v < version q" using q p by simp
    from write_fails_on_newer[of "other_writes s' pid ws" pid q v d'] q(1) this show ?thesis by blast
  qed
  show ?thesis using p0 p later by auto
qed

theorem updateStockSafe_commit_witness:
  "updateStockSafe_read [1 \<mapsto> P0] 1 (- 6) = Inr 3 \<and>
   updateStockSafe_write [1 \<mapsto> P0] 1 3 (- 6) =
     Inr (P0\<lparr>stock := 4, version := 4\<rparr>, [1 \<mapsto> P0\<lparr>stock := 4, version := 4\<rparr>]) \<and>
   updateStockSafe_write [1 \<mapsto> P0\<lparr>stock := 4, version := 4\<rparr>] 1 3 (- 5) = Inl StockUpdateFailed"
proof -
  have rd: "updateStockSafe_read [1 \<mapsto> P0] 1 (- 6) = Inr 3"
    by (simp add: updateStockSafe_read_def P0_def)
  have wr: "updateStockSafe_write [1 \<mapsto> P0] 1 3 (- 6) =
     Inr (P0\<lparr>stock := 4, version := 4\<rparr>, [1 \<mapsto> P0\<lparr>stock := 4, version := 4\<rparr>])"
    by (simp add: updateStockSafe_write_def P0_def Let_def)
  from updateStockSafe_commit[of "[1 \<mapsto> P0]" 1 "- 6" 3 "[1 \<mapsto> P0]" "P0\<lparr>stock := 4, version := 4\<rparr>" "[1 \<mapsto> P0\<lparr>stock := 4, version := 4\<rparr>]"] rd wr
  have "updateStockSafe_write (other_writes [1 \<mapsto> P0\<lparr>stock := 4, version := 4\<rparr>] 1 []) 1 3 (- 5) = Inl StockUpdateFailed"
    by blast
  then show ?thesis using rd wr by simp
qed

text \<open>
  C7. On an existing product \<^verbatim>\<open>lockProduct\<close> succeeds exactly when no lock is held or
  the held lock's timestamp is more than five minutes (300000 ms) old; a success sets the
  flag, the holder and the timestamp. It fails with the lock error when a lock that is
  not yet that old belongs to another holder. A lock taken at time \<open>now\<close> and not released
  can be taken by another actor at time \<open>t\<close> exactly when \<open>t - now\<close> exceeds the timeout.
\<close>

theorem lockProduct_acquire:
  assumes "s pid = Some p"
  shows "((\<exists>x. lockProduct now s pid uid = Inr x) \<longleftrightarrow>
            (\<not> isLocked p \<or> (\<exists>t. lockedAt p = Some t \<and> t < now - 5 * 60 * 1000))) \<and>
         (\<forall>r s'. lockProduct now s pid uid = Inr (r, s') \<longrightarrow>
            r = p\<lparr>isLocked := True, lockedAt := Some now, lockedBy := Some uid\<rparr> \<and>
            s' = s(pid \<mapsto> r)) \<and>
         (isLocked p \<and> (\<exists>t. lockedAt p = Some t \<and> now - 5 * 60 * 1000 \<le> t) \<and> lockedBy p \<noteq> Some uid \<longrightarrow>
            lockProduct now s pid uid = Inl ProductLocked) \<and>
         (\<forall>ra sa t b. lockProduct now s pid uid = Inr (ra, sa) \<longrightarrow>
            ((\<exists>x. lockProduct t sa pid b = Inr x) \<longleftrightarrow> 5 * 60 * 1000 < t - now))"
  using assms
  by (auto simp: lockProduct_def Let_def split: option.splits if_splits)

theorem lockProduct_acquire_witness:
  "lockProduct 1000 [1 \<mapsto> P0] 1 7 = Inr (P_locked, [1 \<mapsto> P_locked]) \<and>
   lockProduct 301000 [1 \<mapsto> P_locked] 1 8 = Inl ProductLocked \<and>
   (\<exists>x. lockProduct 301001 [1 \<mapsto> P_locked] 1 8 = Inr x)"
proof -
  have p: "[1 \<mapsto> P0] (1::nat) = Some P0" by simp
  have a: "lockProduct 1000 [1 \<mapsto> P0] 1 7 = Inr (P_locked, [1 \<mapsto> P_locked])"
    by (simp add: lockProduct_def P_locked_def P0_def Let_def)
  from lockProduct_acquire[where s = "[1 \<mapsto> P0]" and pid = 1 and p = P0 and now = 1000 and uid = 7] p a
  have ab: "(\<exists>x. lockProduct t [1 \<mapsto> P_locked] 1 8 = Inr x) \<longleftrightarrow> 5 * 60 * 1000 < t - 1000" for t
    by blast
  have "\<not> (\<exists>x. lockProduct 301000 [1 \<mapsto> P_locked] 1 8 = Inr x)" using ab[of 301000] by simp
  then have b: "lockProduct 301000 [1 \<mapsto> P_locked] 1 8 = Inl ProductLocked"
    by (simp add: lockProduct_def P_locked_def P0_def Let_def)
  have c: "\<exists>x. lockProduct 301001 [1 \<mapsto> P_locked] 1 8 = Inr x" using ab[of 301001] by simp
  show ?thesis using a b c by blast
qed

text \<open>
  C8, as stated, fails: a version mismatch and a set lock flag make the same conditional
  write miss, and the caller receives the same error for both.
\<close>

theorem conflict_and_locked_same_failure:
  "updateStockSafe_write [1 \<mapsto> P_conflict] 1 3 (- 5) = Inl StockUpdateFailed \<and>
   updateStockSafe_write [1 \<mapsto> P_locked] 1 3 (- 5) = Inl StockUpdateFailed \<and>
   updateStockSafe [1 \<mapsto> P_locked] 1 (- 5) = updateStockSafe_write [1 \<mapsto> P_conflict] 1 3 (- 5)"
  by (simp add: updateStockSafe_def updateStockSafe_read_def updateStockSafe_write_def
        P_conflict_def P_locked_def P0_def Let_def)

text \<open>
  C8, amended. The failures of a conditional stock adjustment are of three pairwise
  distinct kinds: not found (no product at the read), insufficient stock (the delta would
  make the stock read negative), and one combined failure of the conditional write, raised
  exactly when the product is gone, its version differs from the version read, or its
  lock flag is set.
\<close>

theorem updateStockSafe_failures:
  "(updateStockSafe_read s pid d = Inl ProductNotFound \<longleftrightarrow> s pid = None) \<and>
   (updateStockSafe_read s pid d = Inl InsufficientStock \<longleftrightarrow>
      (\<exists>p. s pid = Some p \<and> stock p + d < 0)) \<and>
   (\<forall>e. updateStockSafe_read s pid d = Inl e \<longrightarrow> e = ProductNotFound \<or> e = InsufficientStock) \<and>
   (updateStockSafe_write s' pid v d = Inl StockUpdateFailed \<longleftrightarrow>
      (\<forall>p. s' pid = Some p \<longrightarrow> version p \<noteq> v \<or> isLocked p)) \<and>
   (\<forall>e. updateStockSafe_write s' pid v d = Inl e \<longrightarrow> e = StockUpdateFailed) \<and>
   ProductNotFound \<noteq> InsufficientStock \<and> ProductNotFound \<noteq> StockUpdateFailed \<and>
   InsufficientStock \<noteq> StockUpdateFailed"
  by (auto simp: updateStockSafe_read_def updateStockSafe_write_def Let_def split: option.splits if_splits)

theorem updateStockSafe_failures_witness:
  "updateStockSafe_read Map.empty 1 (- 5) = Inl ProductNotFound \<and>
   updateStockSafe_read [1 \<mapsto> P0] 1 (- 11) = Inl InsufficientStock \<and>
   updateStockSafe_write [1 \<mapsto> P_conflict] 1 3 (- 5) = Inl StockUpdateFailed \<and>
   updateStockSafe_write [1 \<mapsto> P_locked] 1 3 (- 5) = Inl StockUpdateFailed"
proof -
  have a: "updateStockSafe_read Map.empty 1 (- 5) = Inl ProductNotFound"
    using updateStockSafe_failures[of Map.empty 1 "- 5" Map.empty 0] by simp
  have b: "updateStockSafe_read [1 \<mapsto> P0] 1 (- 11) = Inl InsufficientStock"
    using updateStockSafe_failures[of "[1 \<mapsto> P0]" 1 "- 11" Map.empty 0] by (simp add: P0_def)
  have c: "updateStockSafe_write [1 \<mapsto> P_conflict] 1 3 (- 5) = Inl StockUpdateFailed"
    using updateStockSafe_failures[of Map.empty 1 "- 5" "[1 \<mapsto> P_conflict]" 3] by (simp add: P_conflict_def P0_def)
  have d: "updateStockSafe_write [1 \<mapsto> P_locked] 1 3 (- 5) = Inl StockUpdateFailed"
    using updateStockSafe_failures[of Map.empty 1 "- 5" "[1 \<mapsto> P_locked]" 3] by (simp add: P_locked_def P0_def)
  show ?thesis using a b c d by blast
qed

section \<open>Properties of order placement\<close>

lemma validate_items_result:
  "validate_items s xs ois acc = Inr (its, tot) \<Longrightarrow>
     \<exists>new. its = ois @ new \<and> tot = foldl (\<lambda>a t. fl (a + t)) acc (map total new) \<and>
           list_all2 (line_of s) xs new"
proof (induction xs arbitrary: ois acc)
  case Nil
  then show ?case by simp
next
  case (Cons x xs)
  obtain pid q where x: "x = (pid, q)" by (cases x)
  from Cons.prems obtain p where p: "s pid = Some p" "isActive p" "q \<le> stock p"
    by (auto simp: x split: option.splits if_splits)
  let ?it = "\<lparr>productId = pid, productName = name p, quantity = q, itemPrice = price p,
              total = fl (of_int q * price p)\<rparr>"
  from Cons.prems p have "validate_items s xs (ois @ [?it]) (fl (acc + total ?it)) = Inr (its, tot)"
    by (simp add: x Let_def)
  from Cons.IH[of "ois @ [?it]" "fl (acc + total ?it)"] this
  obtain new where new: "its = (ois @ [?it]) @ new"
    "tot = foldl (\<lambda>a t. fl (a + t)) (fl (acc + total ?it)) (map total new)"
    "list_all2 (line_of s) xs new" by blast
  have "line_of s x ?it" using p by (simp add: line_of_def x)
  with new have "its = ois @ (?it # new) \<and>
     tot = foldl (\<lambda>a t. fl (a + t)) acc (map total (?it # new)) \<and>
     list_all2 (line_of s) (x # xs) (?it # new)" by simp
  then show ?case by blast
qed

lemma validate_items_bad:
  "\<exists>x\<in>set xs. (case s (fst x) of None \<Rightarrow> True | Some p \<Rightarrow> \<not> isActive p \<or> stock p < snd x) \<Longrightarrow>
     \<exists>e. validate_items s xs ois acc = Inl e"
proof (induction xs arbitrary: ois acc)
  case Nil
  then show ?case by simp
next
  case (Cons x xs)
  obtain pid q where x: "x = (pid, q)" by (cases x)
  show ?case
  proof (cases "case s pid of None \<Rightarrow> True | Some p \<Rightarrow> \<not> isActive p \<or> stock p < q")
    case True
    then show ?thesis by (auto simp: x split: option.splits)
  next
    case False
    with Cons.prems have "\<exists>x\<in>set xs. (case s (fst x) of None \<Rightarrow> True | Some p \<Rightarrow> \<not> isActive p \<or> stock p < snd x)"
      by (auto simp: x split: option.splits)
    from Cons.IH[OF this] False show ?thesis
      by (auto simp: x Let_def split: option.splits)
  qed
qed

lemma updateStockSafe_result:
  "updateStockSafe s pid d = Inr (r, s') \<Longrightarrow>
     \<exists>p. s pid = Some p \<and> \<not> isLocked p \<and> 0 \<le> stock p + d \<and>
         r = p\<lparr>stock := stock p + d, version := version p + 1\<rparr> \<and> s' = s(pid \<mapsto> r)"
  by (auto simp: updateStockSafe_def updateStockSafe_read_def updateStockSafe_write_def Let_def
           split: option.splits if_splits)

lemma same_locks_step:
  "updateStockSafe s pid d = Inr (r, s') \<Longrightarrow> same_locks s (incTotalSold s' pid q)"
  by (drule updateStockSafe_result) (auto simp: same_locks_def incTotalSold_def split: option.splits)

lemma update_stock_and_sales_unlocked:
  "update_stock_and_sales s its = Inr s' \<Longrightarrow>
     \<forall>it\<in>set its. \<exists>p. s (productId it) = Some p \<and> \<not> isLocked p"
proof (induction its arbitrary: s)
  case Nil
  then show ?case by simp
next
  case (Cons it its)
  from Cons.prems obtain r s1 where u: "updateStockSafe s (productId it) (- quantity it) = Inr (r, s1)"
    and rest: "update_stock_and_sales (incTotalSold s1 (productId it) (quantity it)) its = Inr s'"
    by (auto split: sum.splits)
  let ?s2 = "incTotalSold s1 (productId it) (quantity it)"
  have sl: "same_locks s ?s2" using u by (rule same_locks_step)
  from updateStockSafe_result[OF u] have hd: "\<exists>p. s (productId it) = Some p \<and> \<not> isLocked p" by blast
  from Cons.IH[OF rest] have tl: "\<forall>i\<in>set its. \<exists>p. ?s2 (productId i) = Some p \<and> \<not> isLocked p" .
  have "\<exists>p. s (productId i) = Some p \<and> \<not> isLocked p" if "i \<in> set its" for i
  proof -
    from tl that obtain p2 where p2: "?s2 (productId i) = Some p2" "\<not> isLocked p2" by blast
    from sl have "case s (productId i) of None \<Rightarrow> ?s2 (productId i) = None
                  | Some p \<Rightarrow> (\<exists>p'. ?s2 (productId i) = Some p' \<and> isLocked p' = isLocked p)"
      unfolding same_locks_def by blast
    with p2 show ?thesis by (auto split: option.splits)
  qed
  with hd show ?case by simp
qed

lemma createOrder_error_unchanged:
  "createOrder now uid req s = (Inl e, s') \<Longrightarrow> s' = s"
  by (auto simp: createOrder_def withTransaction_def split: if_splits sum.splits prod.splits)

lemma createOrder_success:
  "createOrder now uid req s = (Inr od, s') \<Longrightarrow>
     \<exists>its acc os ps. orderValidation_create req \<and>
        validate_items (products s) (req_items req) [] 0 = Inr (its, acc) \<and>
        items od = its \<and> totalAmount od = round2 acc \<and> status od = Pending \<and> userId od = uid \<and>
        order_valid od \<and> os = orders s @ [od] \<and>
        update_stock_and_sales (products s) its = Inr ps \<and>
        s' = clearCartForUser uid (s\<lparr>products := ps, orders := os\<rparr>)"
  by (auto simp: createOrder_def withTransaction_def order_transaction_def
        createOrderWithTransaction_def Let_def order_valid_def
        split: if_splits sum.splits prod.splits)

lemmas ex_defs = S0_def P0_def P_eighth_def P_inactive_def addr0_def line_lamp_def line_pin_def
  req_unavailable_def req_twice_def req_pin_def

lemma list_all2_left: "list_all2 R xs ys \<Longrightarrow> x \<in> set xs \<Longrightarrow> \<exists>y\<in>set ys. R x y"
  by (induction rule: list_all2_induct) auto

lemma list_all2_right: "list_all2 R xs ys \<Longrightarrow> y \<in> set ys \<Longrightarrow> \<exists>x\<in>set xs. R x y"
  by (induction rule: list_all2_induct) auto

text \<open>
  Double arithmetic on the amounts of the example data, and on three everyday amounts:
  three times 0.1 is 0.30000000000000004, the amount 1.005 rounds to 1 and the amount
  0.015 rounds to 0.02.
\<close>

lemma fl_examples:
  "fl (1 / 8) = 1 / 8" "fl (3 / 8) = 3 / 8" "fl (3 / 4) = 3 / 4" "fl 40 = 40"
  "round2 (1 / 8) = 1170935903116329 / 9007199254740992"
  by code_simp+

lemma double_arithmetic_examples:
  "fl (1 / 10) = 3602879701896397 / 36028797018963968"
  "fl (3 * fl (1 / 10)) = 1351079888211149 / 4503599627370496"
  "round2 (fl (201 / 200)) = 1"
  "round2 (fl (3 / 200)) = fl (1 / 50)"
  by code_simp+

lemma createOrder_pin: "createOrder 5000 42 req_pin S0 = (Inr order_pin, S0_after_pin)"
  by (simp add: createOrder_def withTransaction_def order_transaction_def
        createOrderWithTransaction_def order_valid_def item_valid_def orderValidation_create_def
        sanitized_address_def trim_def is_space_def zip_matches_def is_digit_def
        fl_examples clearCartForUser_def
        updateStockSafe_def updateStockSafe_read_def updateStockSafe_write_def incTotalSold_def
        ex_defs order_pin_def S0_after_pin_def Let_def fun_upd_twist)


text \<open>
  C2. An order placement that fails leaves the whole state as it was: no order record, no
  stock change, no cart change. It fails whenever a requested line names a product that is
  missing, inactive, short of stock or locked, and whenever a stock adjustment of step 3
  fails after the validation of step 1 has passed (stock found insufficient at commit
  time, as for a product requested twice).
\<close>

theorem createOrder_all_or_nothing:
  "(\<forall>e s'. createOrder now uid req s = (Inl e, s') \<longrightarrow> s' = s) \<and>
   ((\<exists>x\<in>set (req_items req).
        case products s (fst x) of None \<Rightarrow> True
        | Some p \<Rightarrow> \<not> isActive p \<or> stock p < snd x \<or> isLocked p) \<longrightarrow>
      (\<exists>e. createOrder now uid req s = (Inl e, s))) \<and>
   (\<forall>its acc e. validate_items (products s) (req_items req) [] 0 = Inr (its, acc) \<and>
        update_stock_and_sales (products s) its = Inl e \<longrightarrow>
      (\<exists>e'. createOrder now uid req s = (Inl e', s)))"
proof -
  have unchanged: "s' = s" if "createOrder now uid req s = (Inl e, s')" for e s'
    using that by (rule createOrder_error_unchanged)
  have fails: "\<exists>e. createOrder now uid req s = (Inl e, s)"
    if no: "\<And>od s'. createOrder now uid req s \<noteq> (Inr od, s')"
  proof -
    obtain r s' where rs: "createOrder now uid req s = (r, s')" by (cases "createOrder now uid req s")
    with no obtain e where "r = Inl e" by (cases r) auto
    with rs unchanged[of e s'] show ?thesis by auto
  qed
  have bad: "\<exists>e. createOrder now uid req s = (Inl e, s)"
    if x: "x \<in> set (req_items req)"
      and xb: "case products s (fst x) of None \<Rightarrow> True
               | Some p \<Rightarrow> \<not> isActive p \<or> stock p < snd x \<or> isLocked p" for x
  proof (rule fails)
    fix od s'
    show "createOrder now uid req s \<noteq> (Inr od, s')"
    proof
      assume "createOrder now uid req s = (Inr od, s')"
      from createOrder_success[OF this] obtain its acc ps where
        v: "validate_items (products s) (req_items req) [] 0 = Inr (its, acc)" and
        u: "update_stock_and_sales (products s) its = Inr ps" by blast
      from validate_items_result[OF v] have l: "list_all2 (line_of (products s)) (req_items req) its"
        by simp
      from list_all2_left[OF l x] obtain it where it: "it \<in> set its" "line_of (products s) x it"
        by blast
      from update_stock_and_sales_unlocked[OF u] it(1)
      obtain p where p: "products s (productId it) = Some p" "\<not> isLocked p" by blast
      from it(2) p xb show False by (auto simp: line_of_def)
    qed
  qed
  have commit: "\<exists>e'. createOrder now uid req s = (Inl e', s)"
    if v: "validate_items (products s) (req_items req) [] 0 = Inr (its, acc)"
      and u: "update_stock_and_sales (products s) its = Inl e" for its acc e
  proof (rule fails)
    fix od s'
    show "createOrder now uid req s \<noteq> (Inr od, s')"
    proof
      assume "createOrder now uid req s = (Inr od, s')"
      from createOrder_success[OF this] v u show False by auto
    qed
  qed
  show ?thesis using unchanged bad commit by blast
qed

lemma req_unavailable_has_bad_line:
  "\<exists>x\<in>set (req_items req_unavailable).
        case products S0 (fst x) of None \<Rightarrow> True
        | Some p \<Rightarrow> \<not> isActive p \<or> stock p < snd x \<or> isLocked p"
  by (simp add: ex_defs)

lemma req_twice_commit_fails:
  "validate_items (products S0) (req_items req_twice) [] 0 =
     Inr ([\<lparr>productId = 2, productName = ''Pin'', quantity = 3, itemPrice = 1 / 8, total = 3 / 8\<rparr>,
           \<lparr>productId = 2, productName = ''Pin'', quantity = 3, itemPrice = 1 / 8, total = 3 / 8\<rparr>], 3 / 4) \<and>
   update_stock_and_sales (products S0)
     [\<lparr>productId = 2, productName = ''Pin'', quantity = 3, itemPrice = 1 / 8, total = 3 / 8\<rparr>,
      \<lparr>productId = 2, productName = ''Pin'', quantity = 3, itemPrice = 1 / 8, total = 3 / 8\<rparr>]
     = Inl InsufficientStock"
  by (simp add: ex_defs fl_examples Let_def updateStockSafe_def updateStockSafe_read_def
        updateStockSafe_write_def incTotalSold_def)

theorem createOrder_all_or_nothing_witness:
  "(\<exists>e. createOrder 5000 42 req_unavailable S0 = (Inl e, S0)) \<and>
   (\<exists>e. createOrder 5000 42 req_twice S0 = (Inl e, S0))"
  using createOrder_all_or_nothing[of 5000 42 req_unavailable S0] req_unavailable_has_bad_line
        createOrder_all_or_nothing[of 5000 42 req_twice S0] req_twice_commit_fails
  by blast


text \<open>
  C4, as stated, fails: a line total is stored unrounded. For one unit at the price 0.125
  the stored line total is 0.125, not the amount 0.13 that rounding to two decimals gives,
  and the sum of the stored line totals differs from the stored total amount 0.13.
\<close>

theorem line_total_not_rounded:
  "fst (createOrder 5000 42 req_pin S0) = Inr order_pin \<and>
   items order_pin = [line_pin] \<and> total line_pin = 1 / 8 \<and>
   round2 (fl (of_int (quantity line_pin) * itemPrice line_pin)) =
     1170935903116329 / 9007199254740992 \<and>
   total line_pin \<noteq> round2 (fl (of_int (quantity line_pin) * itemPrice line_pin)) \<and>
   sum_list (map total (items order_pin)) \<noteq> totalAmount order_pin"
  by (simp add: createOrder_pin order_pin_def line_pin_def fl_examples)

text \<open>
  C4, amended. In every committed order each line is the copy of its requested pair and
  each line total is the double product of quantity and unit price, not rounded to two
  decimals; the total amount is \<^verbatim>\<open>Math.round(sum * 100) / 100\<close> of the double sum of the
  stored line totals taken in line order, rounded this once; the order is appended to the
  collection.
\<close>

theorem createOrder_totals:
  assumes "createOrder now uid req s = (Inr od, s')"
  shows "list_all2 (line_of (products s)) (req_items req) (items od) \<and>
         (\<forall>it\<in>set (items od). total it = fl (of_int (quantity it) * itemPrice it)) \<and>
         totalAmount od = round2 (js_sum (map total (items od))) \<and>
         orders s' = orders s @ [od]"
proof -
  from createOrder_success[OF assms] obtain its acc ps where
    v: "validate_items (products s) (req_items req) [] 0 = Inr (its, acc)" and
    od: "items od = its" "totalAmount od = round2 acc" and
    s': "s' = clearCartForUser uid (s\<lparr>products := ps, orders := orders s @ [od]\<rparr>)" by blast
  from validate_items_result[OF v] have l: "list_all2 (line_of (products s)) (req_items req) its"
    and acc: "acc = js_sum (map total its)" by (simp_all add: js_sum_def)
  have t: "total it = fl (of_int (quantity it) * itemPrice it)" if "it \<in> set its" for it
  proof -
    from list_all2_right[OF l that] obtain x where "line_of (products s) x it"
      by blast
    then show ?thesis by (auto simp: line_of_def)
  qed
  show ?thesis using l t od acc s' by (simp add: clearCartForUser_def)
qed

theorem createOrder_totals_witness:
  "createOrder 5000 42 req_pin S0 = (Inr order_pin, S0_after_pin) \<and>
   items order_pin = [line_pin] \<and>
   total line_pin = fl (of_int (quantity line_pin) * itemPrice line_pin) \<and>
   totalAmount order_pin = round2 (js_sum (map total (items order_pin))) \<and>
   orders S0_after_pin = orders S0 @ [order_pin]"
proof -
  have its: "items order_pin = [line_pin]" by (simp add: order_pin_def)
  from createOrder_totals[of 5000 42 req_pin S0 order_pin S0_after_pin] createOrder_pin
  have t: "\<forall>it\<in>set (items order_pin). total it = fl (of_int (quantity it) * itemPrice it)"
    and r: "totalAmount order_pin = round2 (js_sum (map total (items order_pin)))"
    and o: "orders S0_after_pin = orders S0 @ [order_pin]" by blast+
  from t its have "total line_pin = fl (of_int (quantity line_pin) * itemPrice line_pin)" by simp
  then show ?thesis using its r o createOrder_pin by blast
qed

text \<open>
  C10. After a successful order placement the placing user's cart is empty, whatever lines
  it held and whatever the order contained, and every other user's cart is unchanged.
\<close>

theorem createOrder_clears_cart:
  assumes "createOrder now uid req s = (Inr od, s')"
  shows "userCarts s' uid = Some [] \<and> (\<forall>u. u \<noteq> uid \<longrightarrow> userCarts s' u = userCarts s u)"
proof -
  from createOrder_success[OF assms] obtain ps os where
    "s' = clearCartForUser uid (s\<lparr>products := ps, orders := os\<rparr>)" by blast
  then show ?thesis by (simp add: clearCartForUser_def)
qed

theorem createOrder_clears_cart_witness:
  "userCarts S0 42 = Some [line_lamp] \<and> productId line_lamp \<notin> fst ` set (req_items req_pin) \<and>
   createOrder 5000 42 req_pin S0 = (Inr order_pin, S0_after_pin) \<and>
   userCarts S0_after_pin 42 = Some [] \<and> userCarts S0_after_pin 43 = userCarts S0 43"
proof -
  have a: "userCarts S0 42 = Some [line_lamp]" by (simp add: S0_def)
  have b: "productId line_lamp \<notin> fst ` set (req_items req_pin)"
    by (simp add: line_lamp_def req_pin_def)
  from createOrder_clears_cart[of 5000 42 req_pin S0 order_pin S0_after_pin] createOrder_pin
  have c: "userCarts S0_after_pin 42 = Some []" "userCarts S0_after_pin 43 = userCarts S0 43"
    by simp_all
  show ?thesis using a b c createOrder_pin by blast
qed


section \<open>Properties of cancellation and status changes\<close>

lemma restore_stock_all:
  "restore_stock s its = (s', None) \<Longrightarrow>
     (case s pid of None \<Rightarrow> s' pid = None
      | Some p \<Rightarrow> (\<exists>p'. s' pid = Some p' \<and> stock p' = stock p + line_quantity pid its))"
proof (induction its arbitrary: s)
  case Nil
  then show ?case by (auto simp: line_quantity_def split: option.splits)
next
  case (Cons it its)
  from Cons.prems obtain r s1 where u: "updateStockSafe s (productId it) (quantity it) = Inr (r, s1)"
    and rest: "restore_stock s1 its = (s', None)"
    by (auto split: sum.splits)
  from updateStockSafe_result[OF u] obtain p where p: "s (productId it) = Some p"
    "r = p\<lparr>stock := stock p + quantity it, version := version p + 1\<rparr>" "s1 = s(productId it \<mapsto> r)"
    by blast
  have lq: "line_quantity pid (it # its) = (if productId it = pid then quantity it else 0) + line_quantity pid its"
    by (simp add: line_quantity_def)
  from Cons.IH[OF rest] have ih: "case s1 pid of None \<Rightarrow> s' pid = None
      | Some p \<Rightarrow> (\<exists>p'. s' pid = Some p' \<and> stock p' = stock p + line_quantity pid its)" .
  show ?case
  proof (cases "productId it = pid")
    case True
    with p ih lq show ?thesis by auto
  next
    case False
    with p ih lq show ?thesis by (auto split: option.splits)
  qed
qed

lemma cancel_pin:
  "cancelOrder 0 42 S0_after_pin = (Inr (order_pin\<lparr>status := Cancelled\<rparr>, None), S_cancelled)"
  by (simp add: cancelOrder_def order_valid_def item_valid_def
        updateStockSafe_def updateStockSafe_read_def updateStockSafe_write_def
        ex_defs order_pin_def S0_after_pin_def S_cancelled_def Let_def fun_upd_twist)


text \<open>
  The customer's cancellation operation. It succeeds only for an order of that customer
  whose status is pending; it then sets the status to cancelled and runs the restore
  loop, one adjustment of plus the line's quantity (at least one) per line, up to the
  first adjustment that fails, whose error is the logged one. When nothing is logged,
  every product's stock has grown by exactly the quantity the order's lines hold of it. A
  second cancellation of the same order fails with the invalid-state error and changes
  nothing, as does any cancellation of an order that is not pending.
\<close>

lemma cancelOrder_pending_only:
  "(\<forall>od logged s'. cancelOrder oid uid s = (Inr (od, logged), s') \<longrightarrow>
      oid < length (orders s) \<and> userId (orders s ! oid) = uid \<and>
      status (orders s ! oid) = Pending \<and>
      od = (orders s ! oid)\<lparr>status := Cancelled\<rparr> \<and>
      orders s' = (orders s)[oid := od] \<and> userCarts s' = userCarts s \<and>
      (\<forall>it\<in>set (items od). 1 \<le> quantity it) \<and>
      restore_stock (products s) (items od) = (products s', logged) \<and>
      (logged = None \<longrightarrow>
         (\<forall>pid. case products s pid of None \<Rightarrow> products s' pid = None
                | Some p \<Rightarrow> (\<exists>p'. products s' pid = Some p' \<and>
                                 stock p' = stock p + line_quantity pid (items od)))) \<and>
      cancelOrder oid uid s' = (Inl (CannotCancel Cancelled), s')) \<and>
   (oid < length (orders s) \<and> userId (orders s ! oid) = uid \<and> status (orders s ! oid) \<noteq> Pending \<longrightarrow>
      cancelOrder oid uid s = (Inl (CannotCancel (status (orders s ! oid))), s))"
proof -
  have ok: "oid < length (orders s) \<and> userId (orders s ! oid) = uid \<and>
      status (orders s ! oid) = Pending \<and>
      od = (orders s ! oid)\<lparr>status := Cancelled\<rparr> \<and>
      orders s' = (orders s)[oid := od] \<and> userCarts s' = userCarts s \<and>
      (\<forall>it\<in>set (items od). 1 \<le> quantity it) \<and>
      restore_stock (products s) (items od) = (products s', logged) \<and>
      (logged = None \<longrightarrow>
         (\<forall>pid. case products s pid of None \<Rightarrow> products s' pid = None
                | Some p \<Rightarrow> (\<exists>p'. products s' pid = Some p' \<and>
                                 stock p' = stock p + line_quantity pid (items od)))) \<and>
      cancelOrder oid uid s' = (Inl (CannotCancel Cancelled), s')"
    if c: "cancelOrder oid uid s = (Inr (od, logged), s')" for od logged s'
  proof -
    from c have pre: "oid < length (orders s)" "userId (orders s ! oid) = uid"
      "status (orders s ! oid) = Pending" "order_valid ((orders s ! oid)\<lparr>status := Cancelled\<rparr>)"
      by (auto simp: cancelOrder_def Let_def split: if_splits prod.splits)
    from c pre have od: "od = (orders s ! oid)\<lparr>status := Cancelled\<rparr>"
      and s': "s' = s\<lparr>products := fst (restore_stock (products s) (items od)),
                      orders := (orders s)[oid := od]\<rparr>"
      and lg: "logged = snd (restore_stock (products s) (items od))"
      by (auto simp: cancelOrder_def Let_def split: if_splits prod.splits)
    have rs: "restore_stock (products s) (items od) = (products s', logged)"
      using s' lg by simp
    have q: "\<forall>it\<in>set (items od). 1 \<le> quantity it"
      using pre(4) od by (auto simp: order_valid_def item_valid_def list_all_iff)
    have all: "case products s pid of None \<Rightarrow> products s' pid = None
                | Some p \<Rightarrow> (\<exists>p'. products s' pid = Some p' \<and>
                                 stock p' = stock p + line_quantity pid (items od))"
      if "logged = None" for pid
      using restore_stock_all[of "products s" "items od" "products s'" pid] rs that by simp
    have again: "cancelOrder oid uid s' = (Inl (CannotCancel Cancelled), s')"
      using pre s' od by (simp add: cancelOrder_def Let_def)
    show ?thesis using pre od s' rs q all again by simp
  qed
  have no: "cancelOrder oid uid s = (Inl (CannotCancel (status (orders s ! oid))), s)"
    if "oid < length (orders s)" "userId (orders s ! oid) = uid" "status (orders s ! oid) \<noteq> Pending"
    using that by (simp add: cancelOrder_def Let_def)
  show ?thesis using ok no by blast
qed

lemma cancelOrder_pending_only_example:
  "cancelOrder 0 42 S0_after_pin = (Inr (order_pin\<lparr>status := Cancelled\<rparr>, None), S_cancelled) \<and>
   line_quantity 2 (items order_pin) = 1 \<and>
   map_option stock (products S0_after_pin 2) = Some 4 \<and>
   map_option stock (products S_cancelled 2) = Some 5 \<and>
   cancelOrder 0 42 S_cancelled = (Inl (CannotCancel Cancelled), S_cancelled)"
proof -
  from cancelOrder_pending_only[of 0 42 S0_after_pin] cancel_pin
  have "cancelOrder 0 42 S_cancelled = (Inl (CannotCancel Cancelled), S_cancelled)" by blast
  then show ?thesis using cancel_pin
    by (simp add: line_quantity_def order_pin_def line_pin_def S0_after_pin_def S_cancelled_def P_eighth_def)
qed


text \<open>
  C5. The admin status operation cancels the pending order of the example and restores no
  stock: the order becomes cancelled, the products are those of before, and product 2
  keeps the stock 4 that the placement left, where the customer's cancellation of the same
  order brings it back to 5. The test before the restore loop reads the status of the
  document after the update, which is already cancelled.
\<close>

theorem admin_cancel_restores_no_stock:
  "status (orders S0_after_pin ! 0) = Pending \<and>
   items (orders S0_after_pin ! 0) = [line_pin] \<and> productId line_pin = 2 \<and> quantity line_pin = 1 \<and>
   updateOrderStatus 0 Cancelled S0_after_pin =
     (Inr (order_pin\<lparr>status := Cancelled\<rparr>, None),
      S0_after_pin\<lparr>orders := [order_pin\<lparr>status := Cancelled\<rparr>]\<rparr>) \<and>
   products (snd (updateOrderStatus 0 Cancelled S0_after_pin)) = products S0_after_pin \<and>
   map_option stock (products (snd (updateOrderStatus 0 Cancelled S0_after_pin)) 2) = Some 4 \<and>
   map_option stock (products (snd (cancelOrder 0 42 S0_after_pin)) 2) = Some 5"
proof -
  have a: "status (orders S0_after_pin ! 0) = Pending \<and>
      items (orders S0_after_pin ! 0) = [line_pin] \<and> productId line_pin = 2 \<and> quantity line_pin = 1"
    by (simp add: S0_after_pin_def order_pin_def line_pin_def)
  have b: "updateOrderStatus 0 Cancelled S0_after_pin =
     (Inr (order_pin\<lparr>status := Cancelled\<rparr>, None),
      S0_after_pin\<lparr>orders := [order_pin\<lparr>status := Cancelled\<rparr>]\<rparr>)"
    by (simp add: updateOrderStatus_def S0_after_pin_def Let_def)
  have c: "map_option stock (products S0_after_pin 2) = Some 4"
    by (simp add: S0_after_pin_def P_eighth_def)
  have d: "map_option stock (products (snd (cancelOrder 0 42 S0_after_pin)) 2) = Some 5"
    unfolding cancel_pin by (simp add: S_cancelled_def P_eighth_def)
  show ?thesis unfolding b using a c d by simp
qed

text \<open>
  C6, as stated, fails: the admin status operation moves a shipped order back to pending
  and sets a delivered order to cancelled.
\<close>

theorem admin_moves_status_back:
  "status (orders S_shipped ! 0) = Shipped \<and>
   map status (orders (snd (updateOrderStatus 0 Pending S_shipped))) = [Pending] \<and>
   status (orders S_delivered ! 0) = Delivered \<and>
   map status (orders (snd (updateOrderStatus 0 Cancelled S_delivered))) = [Cancelled]"
  by (simp add: updateOrderStatus_def S_shipped_def S_delivered_def S0_after_pin_def Let_def)

text \<open>
  C6, amended. An order is created pending. The customer's cancellation changes no status
  except the cancelled order's, from pending to cancelled. The admin status operation sets
  the status of an existing order to the requested value whatever the current one is.
  The cart operation changes no order (the product operations act on the products only).
\<close>

theorem status_changes:
  "(\<forall>od s'. createOrder now uid req s = (Inr od, s') \<longrightarrow>
      status od = Pending \<and> orders s' = orders s @ [od]) \<and>
   (\<forall>r s'. cancelOrder oid uid s = (r, s') \<longrightarrow>
      length (orders s') = length (orders s) \<and>
      (\<forall>i<length (orders s).
          status (orders s' ! i) = status (orders s ! i) \<or>
          (i = oid \<and> status (orders s ! i) = Pending \<and> status (orders s' ! i) = Cancelled))) \<and>
   (oid < length (orders s) \<longrightarrow>
      (\<exists>od logged s'. updateOrderStatus oid st s = (Inr (od, logged), s') \<and>
          orders s' = (orders s)[oid := (orders s ! oid)\<lparr>status := st\<rparr>] \<and>
          status (orders s' ! oid) = st)) \<and>
   (\<forall>r s'. addToCart cuid cpid qty s = (r, s') \<longrightarrow> orders s' = orders s)"
proof -
  have a: "status od = Pending \<and> orders s' = orders s @ [od]"
    if "createOrder now uid req s = (Inr od, s')" for od s'
    using createOrder_success[OF that] by (auto simp: clearCartForUser_def)
  have b: "length (orders s') = length (orders s) \<and>
      (\<forall>i<length (orders s).
          status (orders s' ! i) = status (orders s ! i) \<or>
          (i = oid \<and> status (orders s ! i) = Pending \<and> status (orders s' ! i) = Cancelled))"
    if "cancelOrder oid uid s = (r, s')" for r s'
    using that by (auto simp: cancelOrder_def Let_def nth_list_update split: if_splits prod.splits)
  have c: "\<exists>od logged s'. updateOrderStatus oid st s = (Inr (od, logged), s') \<and>
          orders s' = (orders s)[oid := (orders s ! oid)\<lparr>status := st\<rparr>] \<and>
          status (orders s' ! oid) = st" if "oid < length (orders s)"
    using that by (simp add: updateOrderStatus_def Let_def)
  have d: "orders s' = orders s" if "addToCart cuid cpid qty s = (r, s')" for r s'
    using that by (auto simp: addToCart_def Let_def split: if_splits option.splits)
  show ?thesis using a b c d by blast
qed

theorem status_changes_witness:
  "createOrder 5000 42 req_pin S0 = (Inr order_pin, S0_after_pin) \<and> status order_pin = Pending \<and>
   cancelOrder 0 42 S0_after_pin = (Inr (order_pin\<lparr>status := Cancelled\<rparr>, None), S_cancelled) \<and>
   status (orders S0_after_pin ! 0) = Pending \<and> status (orders S_cancelled ! 0) = Cancelled \<and>
   (\<exists>od logged s'. updateOrderStatus 0 Processing S_shipped = (Inr (od, logged), s') \<and>
       status (orders s' ! 0) = Processing)"
proof -
  from status_changes[where now = 5000 and uid = 42 and req = req_pin and s = S0] createOrder_pin
  have a: "status order_pin = Pending" by blast
  note t = status_changes[where uid = 42 and s = S0_after_pin and oid = 0]
  have len: "0 < length (orders S0_after_pin)" by (simp add: S0_after_pin_def)
  from t cancel_pin len
  have b: "status (orders S_cancelled ! 0) = status (orders S0_after_pin ! 0) \<or>
      (status (orders S0_after_pin ! 0) = Pending \<and> status (orders S_cancelled ! 0) = Cancelled)"
    by blast
  have ne: "status (orders S_cancelled ! 0) \<noteq> status (orders S0_after_pin ! 0)"
    by (simp add: S_cancelled_def S0_after_pin_def order_pin_def)
  have len2: "0 < length (orders S_shipped)" by (simp add: S_shipped_def)
  from status_changes[where s = S_shipped and oid = 0 and st = Processing] len2
  have c: "\<exists>od logged s'. updateOrderStatus 0 Processing S_shipped = (Inr (od, logged), s') \<and>
       status (orders s' ! 0) = Processing" by blast
  show ?thesis using a b ne c createOrder_pin cancel_pin by blast
qed


section \<open>Properties of product administration and the cart\<close>

text \<open>
  C3. The admin product update writes a new stock and leaves the version as it was: a
  stock adjustment that read stock 10 at version 3 before the update still finds version 3
  after the stock was set to 3, commits its delta of minus 6 and stores the stock -3.
\<close>

theorem admin_update_keeps_version:
  "productValidation_update stock_to_3 \<and>
   updateStockSafe_read [1 \<mapsto> P0] 1 (- 6) = Inr 3 \<and>
   updateProduct 1 stock_to_3 [1 \<mapsto> P0] = (Inr (P0\<lparr>stock := 3\<rparr>), [1 \<mapsto> P0\<lparr>stock := 3\<rparr>]) \<and>
   stock P0 = 10 \<and> version P0 = 3 \<and> version (P0\<lparr>stock := 3\<rparr>) = 3 \<and>
   updateStockSafe_write [1 \<mapsto> P0\<lparr>stock := 3\<rparr>] 1 3 (- 6) =
     Inr (P0\<lparr>stock := - 3, version := 4\<rparr>, [1 \<mapsto> P0\<lparr>stock := - 3, version := 4\<rparr>])"
  by (simp add: productValidation_update_def updateProduct_def apply_updates_def stock_to_3_def
        updateStockSafe_read_def updateStockSafe_write_def P0_def Let_def)

text \<open>
  C9. Adding to a line that is already in the cart, after the product's price went from
  12.5 to 20: the line keeps the price 12.5 of its first snapshot, and its total 40 is
  computed from the new price, so the stored total is not the stored price times the
  stored quantity.
\<close>

theorem addToCart_merge_keeps_old_price:
  "userCarts S0 42 = Some [line_lamp] \<and>
   total line_lamp = of_int (quantity line_lamp) * itemPrice line_lamp \<and>
   updateProduct 1 price_to_20 (products S0) = (Inr (P0\<lparr>price := 20\<rparr>), products S_repriced) \<and>
   addToCart 42 1 1 S_repriced =
     (Inr (Some line_lamp_merged), S_repriced\<lparr>userCarts := [42 \<mapsto> [line_lamp_merged], 43 \<mapsto> [line_pin]]\<rparr>) \<and>
   itemPrice line_lamp_merged = 25 / 2 \<and>
   total line_lamp_merged \<noteq> of_int (quantity line_lamp_merged) * itemPrice line_lamp_merged"
  by (simp add: productValidation_update_def updateProduct_def apply_updates_def price_to_20_def
        addToCart_def S_repriced_def line_lamp_merged_def ex_defs fl_examples Let_def fun_upd_twist)

end
